theory Spec2Isabelle
  imports Main
begin

section \<open>Repeat render manager\<close>

text \<open>
  The model of \<^verbatim>\<open>RepeatRenderManager.js\<close>. A render function of the source reads the
  form data, computes what it shows and builds the click handlers of its buttons; the
  model returns what is shown as a record and each handler as a function on the state
  the handler writes to. Numbers that come from the form schema or from a caller
  (\<^verbatim>\<open>nonCollapsedItems\<close>, the index handed to a handler) are JavaScript numbers that
  may be negative, so they are \<open>int\<close>; array lengths are \<open>nat\<close>.
\<close>

subsection \<open>Array methods the source calls\<close>

text \<open>
  \<^verbatim>\<open>Array.prototype.slice(0, end)\<close> for an integral \<open>end\<close>: a negative \<open>end\<close> counts
  from the back of the array, and the result never leaves the array's bounds.
\<close>

definition slice0 :: "'a list \<Rightarrow> int \<Rightarrow> 'a list" where
  "slice0 xs e =
     (let len = int (length xs);
          final = (if e < 0 then max (len + e) 0 else min e len)
      in take (nat final) xs)"

text \<open>
  The array left by \<^verbatim>\<open>Array.prototype.splice(start, 1)\<close> for an integral \<open>start\<close>:
  a negative \<open>start\<close> counts from the back, a \<open>start\<close> beyond the end is the end,
  and at most one element (as many as remain after \<open>start\<close>) is removed.
\<close>

definition splice1 :: "'a list \<Rightarrow> int \<Rightarrow> 'a list" where
  "splice1 xs start =
     (let len = int (length xs);
          actualStart = (if start < 0 then max (len + start) 0 else min start len);
          actualDeleteCount = min (max 1 0) (len - actualStart)
      in take (nat actualStart) xs @ drop (nat (actualStart + actualDeleteCount)) xs)"

subsection \<open>Data\<close>

text \<open>
  The attributes of a field definition that the manager reads. An attribute the
  schema leaves out is \<open>None\<close> (\<^verbatim>\<open>undefined\<close>); a boolean attribute left out is
  falsy, hence \<open>False\<close>. Of \<^verbatim>\<open>components\<close> only the presence and the length matter,
  so a child is represented by its id.
\<close>

record field =
  field_id :: string
  components :: "string list option"
  allowAddRemove :: bool
  disableCollapse :: bool
  nonCollapsedItems :: "int option"

text \<open>
  \<^verbatim>\<open>indexes\<close> maps the id of a repeating ancestor to the position of the rendered
  instance. Where the source receives \<^verbatim>\<open>undefined\<close> it spreads it as the empty object,
  which is the empty map here.
\<close>

type_synonym indexes = "string \<rightharpoonup> int"

text \<open>The state shared by the repeater and its footer; the spread \<^verbatim>\<open>...state\<close>
  keeps whatever else the state holds, which is the record's extension.\<close>

record sharedRepeatState =
  isCollapsed :: bool

text \<open>The argument of one \<^verbatim>\<open>props.onChange\<close> call.\<close>

record 'a change =
  ch_field :: field
  ch_value :: "'a list"
  ch_indexes :: indexes

text \<open>
  What a click handler can write to: the requests it sent through \<^verbatim>\<open>props.onChange\<close>
  (oldest first), the shared repeat state and the \<^verbatim>\<open>shouldScroll\<close> ref. The handlers
  have no other effect; in particular they never write to the form data, which changes
  only when the form applies a request.
\<close>

record ('a, 's) ui =
  onChange_calls :: "'a change list"
  shared :: "'s sharedRepeatState_scheme"
  shouldScroll :: bool

text \<open>
  The collaborators a render reads from: the form's data (\<^verbatim>\<open>this._form._getState().data\<close>),
  the path registry, min-dash's \<^verbatim>\<open>get\<close> (\<open>None\<close> when nothing truthy is stored at the
  path) and the form's initializer of default data.
\<close>

record ('d, 'a) form =
  getState_data :: 'd
  getValuePath :: "field \<Rightarrow> indexes \<Rightarrow> string list"
  get_path :: "'d \<Rightarrow> string list \<Rightarrow> 'a list option"
  getInitializedFieldData :: "'d \<Rightarrow> field \<Rightarrow> indexes \<Rightarrow> 'a"

subsection \<open>The manager\<close>

text \<open>\<^verbatim>\<open>_getNonCollapsedItems\<close>: a number is truthy unless it is zero.\<close>

definition getNonCollapsedItems :: "field \<Rightarrow> int" where
  "getNonCollapsedItems fld =
     (let DEFAULT_NON_COLLAPSED_ITEMS = 5 in
      case nonCollapsedItems fld of
        None \<Rightarrow> DEFAULT_NON_COLLAPSED_ITEMS
      | Some n \<Rightarrow> (if n \<noteq> 0 then n else DEFAULT_NON_COLLAPSED_ITEMS))"

text \<open>\<^verbatim>\<open>get(data, dataPath) || []\<close>\<close>

definition values_at :: "('d, 'a) form \<Rightarrow> field \<Rightarrow> indexes \<Rightarrow> 'a list" where
  "values_at frm repeaterField idx =
     (case get_path frm (getState_data frm) (getValuePath frm repeaterField idx) of
        None \<Rightarrow> []
      | Some vs \<Rightarrow> vs)"

definition hasChildren :: "field \<Rightarrow> bool" where
  "hasChildren repeaterField =
     (case components repeaterField of None \<Rightarrow> False | Some cs \<Rightarrow> length cs > 0)"

text \<open>\<^verbatim>\<open>onDeleteItem\<close> of \<^verbatim>\<open>Repeater\<close>: the copy, the splice and the one request.\<close>

definition onDeleteItem ::
  "field \<Rightarrow> indexes \<Rightarrow> 'a list \<Rightarrow> int \<Rightarrow> ('a, 's) ui \<Rightarrow> ('a, 's) ui" where
  "onDeleteItem repeaterField idx vs index u =
     (let updatedValues = splice1 vs index
      in u\<lparr>onChange_calls := onChange_calls u @
            [\<lparr>ch_field = repeaterField, ch_value = updatedValues, ch_indexes = idx\<rparr>]\<rparr>)"

text \<open>
  One rendered row: the indexes handed to the rows renderer, the item (\<^verbatim>\<open>this\<close> of the
  local expression context), the one-based position appended to \<^verbatim>\<open>i\<close>, and the remove
  button's handler when the button is rendered.
\<close>

record ('a, 's) row =
  row_indexes :: indexes
  row_this :: 'a
  row_i :: int
  row_remove :: "(('a, 's) ui \<Rightarrow> ('a, 's) ui) option"

record ('a, 's) repeater_view =
  rv_collapseEnabled :: bool
  rv_isCollapsed :: bool
  rv_showRemove :: bool
  displayValues :: "'a list"
  rows :: "('a, 's) row list"

definition Repeater ::
  "('d, 'a) form \<Rightarrow> field \<Rightarrow> indexes \<Rightarrow> 's sharedRepeatState_scheme \<Rightarrow> ('a, 's) repeater_view" where
  "Repeater frm repeaterField idx sharedState =
     (let vs = values_at frm repeaterField idx;
          nonCollapsed = getNonCollapsedItems repeaterField;
          enabled = (\<not> disableCollapse repeaterField \<and> int (length vs) > nonCollapsed);
          collapsed = (enabled \<and> isCollapsed sharedState);
          showRemove = (allowAddRemove repeaterField \<and> hasChildren repeaterField);
          shown = (if collapsed then slice0 vs nonCollapsed else vs)
      in \<lparr>rv_collapseEnabled = enabled,
          rv_isCollapsed = collapsed,
          rv_showRemove = showRemove,
          displayValues = shown,
          rows = map (\<lambda>(index, v).
                   \<lparr>row_indexes = idx(field_id repeaterField \<mapsto> int index),
                    row_this = v,
                    row_i = int index + 1,
                    row_remove = (if showRemove
                                  then Some (onDeleteItem repeaterField idx vs (int index))
                                  else None)\<rparr>)
                 (enumerate 0 shown)\<rparr>)"

text \<open>\<^verbatim>\<open>toggle\<close> of \<^verbatim>\<open>RepeatFooter\<close>; its argument is the footer's local
  \<^verbatim>\<open>isCollapsed\<close>, and the updater runs on the state of the moment.\<close>

definition toggle :: "bool \<Rightarrow> ('a, 's) ui \<Rightarrow> ('a, 's) ui" where
  "toggle collapsed u = u\<lparr>shared := (shared u)\<lparr>isCollapsed := \<not> collapsed\<rparr>\<rparr>"

text \<open>\<^verbatim>\<open>onAddItem\<close> of \<^verbatim>\<open>RepeatFooter\<close>, statement by statement.\<close>

definition onAddItem ::
  "('d, 'a) form \<Rightarrow> field \<Rightarrow> indexes \<Rightarrow> 'a list \<Rightarrow> ('a, 's) ui \<Rightarrow> ('a, 's) ui" where
  "onAddItem frm repeaterField idx vs u =
     (let updatedValues = vs;
          newItem = getInitializedFieldData frm (getState_data frm) repeaterField
                      (idx(field_id repeaterField \<mapsto> int (length updatedValues)));
          updatedValues = updatedValues @ [newItem];
          u = u\<lparr>shouldScroll := True\<rparr>;
          u = u\<lparr>onChange_calls := onChange_calls u @
                [\<lparr>ch_field = repeaterField, ch_value = updatedValues, ch_indexes = idx\<rparr>]\<rparr>
      in u\<lparr>shared := (shared u)\<lparr>isCollapsed := False\<rparr>\<rparr>)"

text \<open>
  What the footer renders: the add button (its \<^verbatim>\<open>disabled\<close> attribute and its handler)
  when \<^verbatim>\<open>showAdd\<close> holds, and the collapse button (its handler) when collapsing is
  enabled. The footer reads the shared state of the moment it is rendered in.
\<close>

record ('a, 's) footer_view =
  fv_collapseEnabled :: bool
  fv_isCollapsed :: bool
  add_button :: "(bool \<times> (('a, 's) ui \<Rightarrow> ('a, 's) ui)) option"
  collapse_button :: "(('a, 's) ui \<Rightarrow> ('a, 's) ui) option"

definition RepeatFooter ::
  "('d, 'a) form \<Rightarrow> field \<Rightarrow> indexes \<Rightarrow> bool \<Rightarrow> bool \<Rightarrow> ('a, 's) ui \<Rightarrow> ('a, 's) footer_view" where
  "RepeatFooter frm repeaterField idx readonly disabled u =
     (let vs = values_at frm repeaterField idx;
          nonCollapsed = getNonCollapsedItems repeaterField;
          enabled = (\<not> disableCollapse repeaterField \<and> int (length vs) > nonCollapsed);
          collapsed = (enabled \<and> isCollapsed (shared u));
          showAdd = (allowAddRemove repeaterField \<and> hasChildren repeaterField)
      in \<lparr>fv_collapseEnabled = enabled,
          fv_isCollapsed = collapsed,
          add_button = (if showAdd
                        then Some (disabled \<or> readonly, onAddItem frm repeaterField idx vs)
                        else None),
          collapse_button = (if enabled then Some (toggle collapsed) else None)\<rparr>)"

section \<open>Number field\<close>

text \<open>
  The model of \<^verbatim>\<open>Number.js\<close>. The component calls three things that are not its own:
  JavaScript's \<^verbatim>\<open>Number(...)\<close> and \<^verbatim>\<open>toString()\<close>, the decimal arithmetic of big.js, and
  the helpers of \<^verbatim>\<open>numberFieldUtil\<close>. The first two are modelled after their
  specifications (ECMAScript's StringToNumber and Number::toString, and the big.js
  documentation), over exact decimal numbers: a number is its exact decimal value, so
  the rounding and the overflow of double-precision floats are outside the model, and
  zero has no sign. A string is a list of ASCII characters.
\<close>

subsection \<open>Decimal digits\<close>

definition isDigit :: "char \<Rightarrow> bool" where
  "isDigit c = (c \<in> set ''0123456789'')"

definition digit_val :: "char \<Rightarrow> nat" where
  "digit_val c = of_char c - 48"

definition digit_of :: "nat \<Rightarrow> char" where
  "digit_of n = ''0123456789'' ! n"

text \<open>The value of a string of decimal digits, and the digits of a natural number.\<close>

definition digits_val :: "string \<Rightarrow> nat" where
  "digits_val ds = foldl (\<lambda>a c. 10 * a + digit_val c) 0 ds"

fun show_nat :: "nat \<Rightarrow> string" where
  "show_nat n = (if n < 10 then [digit_of n] else show_nat (n div 10) @ [digit_of (n mod 10)])"

declare show_nat.simps [simp del]

definition show_int :: "int \<Rightarrow> string" where
  "show_int i = (if i < 0 then ''-'' else '''') @ show_nat (nat \<bar>i\<bar>)"

subsection \<open>Decimal numbers\<close>

text \<open>
  \<open>Dec m s\<close> is the number \<open>m / 10 ^ s\<close>. Several pairs denote the same number
  (\<open>Dec 15 1\<close> and \<open>Dec 150 2\<close>); \<open>dec_eq\<close> is equality of the numbers denoted and
  \<open>dnorm\<close> the pair with the least scale.
\<close>

datatype dec = Dec (mant: int) (scale: nat)

definition dec_eq :: "dec \<Rightarrow> dec \<Rightarrow> bool" where
  "dec_eq x y = (mant x * 10 ^ scale y = mant y * 10 ^ scale x)"

fun dnorm :: "int \<Rightarrow> nat \<Rightarrow> dec" where
  "dnorm m 0 = Dec m 0"
| "dnorm m (Suc k) = (if m mod 10 = 0 then dnorm (m div 10) k else Dec m (Suc k))"

text \<open>The remainder of the division that truncates towards zero: it has the sign of
  the dividend.\<close>

definition tmod :: "int \<Rightarrow> int \<Rightarrow> int" where
  "tmod a b = sgn a * (\<bar>a\<bar> mod \<bar>b\<bar>)"

text \<open>What the calls of the component can throw: big.js rejects a text that is not a
  number and a division by zero; a method called on \<^verbatim>\<open>null\<close> is a type error.\<close>

datatype error = InvalidNumber | DivisionByZero | TypeError

subsection \<open>The big.js operations the component calls\<close>

text \<open>
  \<^verbatim>\<open>plus\<close> and \<^verbatim>\<open>minus\<close> are exact. \<^verbatim>\<open>x.mod(y)\<close> is \<open>x\<close> minus \<open>y\<close> times the quotient
  truncated towards zero, so it has the sign of \<open>x\<close>, and it throws when \<open>y\<close> is zero.
  \<^verbatim>\<open>x.cmp(0)\<close> is the sign of \<open>x\<close>. \<^verbatim>\<open>toFixed()\<close> without an argument prints the
  number in plain notation, without an exponent and without trailing zeros.
\<close>

definition Big_plus :: "dec \<Rightarrow> dec \<Rightarrow> dec" where
  "Big_plus x y =
     (let s = max (scale x) (scale y)
      in Dec (mant x * 10 ^ (s - scale x) + mant y * 10 ^ (s - scale y)) s)"

definition Big_minus :: "dec \<Rightarrow> dec \<Rightarrow> dec" where
  "Big_minus x y =
     (let s = max (scale x) (scale y)
      in Dec (mant x * 10 ^ (s - scale x) - mant y * 10 ^ (s - scale y)) s)"

definition Big_mod :: "dec \<Rightarrow> dec \<Rightarrow> error + dec" where
  "Big_mod x y =
     (if mant y = 0 then Inl DivisionByZero
      else let s = max (scale x) (scale y)
           in Inr (Dec (tmod (mant x * 10 ^ (s - scale x)) (mant y * 10 ^ (s - scale y))) s))"

definition Big_cmp0 :: "dec \<Rightarrow> int" where
  "Big_cmp0 x = sgn (mant x)"

definition pad_zeros :: "nat \<Rightarrow> string \<Rightarrow> string" where
  "pad_zeros k ds = replicate (k - length ds) CHR ''0'' @ ds"

definition Big_toFixed :: "dec \<Rightarrow> string" where
  "Big_toFixed x =
     (case dnorm (mant x) (scale x) of Dec m s \<Rightarrow>
        (if m < 0 then ''-'' else '''') @
        show_nat (nat \<bar>m\<bar> div 10 ^ s) @
        (if s = 0 then '''' else ''.'' @ pad_zeros s (show_nat (nat \<bar>m\<bar> mod 10 ^ s))))"

text \<open>The part of that text after the sign, for a normal form \<open>Dec (\<plusminus> a) s\<close>.\<close>

definition fixed_body :: "nat \<Rightarrow> nat \<Rightarrow> string" where
  "fixed_body a s =
     show_nat (a div 10 ^ s) @
     (if s = 0 then [] else ''.'' @ pad_zeros s (show_nat (a mod 10 ^ s)))"

subsection \<open>JavaScript values\<close>

text \<open>
  The values the component handles: \<^verbatim>\<open>undefined\<close>, \<^verbatim>\<open>null\<close>, numbers and strings.
  \<open>strict_eq\<close> is \<^verbatim>\<open>===\<close> (no number equals \<^verbatim>\<open>NaN\<close>, and numbers are compared by the
  number they denote) and \<open>truthy\<close> is the test of a condition.
\<close>

datatype jsnum = NaN | PosInfinity | NegInfinity | Fin dec

datatype jsval = JUndefined | JNull | JNum jsnum | JStr string

definition isNaN :: "jsnum \<Rightarrow> bool" where
  "isNaN n = (n = NaN)"

fun num_eq :: "jsnum \<Rightarrow> jsnum \<Rightarrow> bool" where
  "num_eq (Fin x) (Fin y) = dec_eq x y"
| "num_eq PosInfinity PosInfinity = True"
| "num_eq NegInfinity NegInfinity = True"
| "num_eq _ _ = False"

fun strict_eq :: "jsval \<Rightarrow> jsval \<Rightarrow> bool" where
  "strict_eq JUndefined JUndefined = True"
| "strict_eq JNull JNull = True"
| "strict_eq (JNum a) (JNum b) = num_eq a b"
| "strict_eq (JStr s) (JStr t) = (s = t)"
| "strict_eq _ _ = False"

fun truthy :: "jsval \<Rightarrow> bool" where
  "truthy JUndefined = False"
| "truthy JNull = False"
| "truthy (JNum NaN) = False"
| "truthy (JNum (Fin x)) = (mant x \<noteq> 0)"
| "truthy (JNum _) = True"
| "truthy (JStr s) = (s \<noteq> [])"

subsection \<open>Reading numbers\<close>

text \<open>
  \<^verbatim>\<open>Number(text)\<close> is ECMAScript's StringToNumber: white space around the text is
  dropped; the empty text is 0; \<^verbatim>\<open>0x\<close>, \<^verbatim>\<open>0o\<close> and \<^verbatim>\<open>0b\<close> start an unsigned integer
  in base 16, 8 or 2; otherwise the text is an optional sign followed by \<^verbatim>\<open>Infinity\<close> or
  by a decimal literal (digits with an optional point, at least one digit, and an
  optional exponent); any other text is \<^verbatim>\<open>NaN\<close>. The constructor of big.js accepts
  exactly the texts of its pattern \<^verbatim>\<open>/^-?(\d+(\.\d*)?|\.\d+)(e[+-]?\d+)?$/i\<close>: the same
  decimal literals, with no white space, no \<^verbatim>\<open>+\<close> sign and no other notation.
\<close>

definition isWhiteSpace :: "char \<Rightarrow> bool" where
  "isWhiteSpace c = (c \<in> set [CHR 0x09, CHR 0x0A, CHR 0x0B, CHR 0x0C, CHR 0x0D, CHR '' ''])"

definition trim :: "string \<Rightarrow> string" where
  "trim s = rev (dropWhile isWhiteSpace (rev (dropWhile isWhiteSpace s)))"

definition make_dec :: "nat \<Rightarrow> int \<Rightarrow> dec" where
  "make_dec n e = (if 0 \<le> e then Dec (int n * 10 ^ nat e) 0 else Dec (int n) (nat (- e)))"

definition all_digits :: "string \<Rightarrow> bool" where
  "all_digits ds = (ds \<noteq> [] \<and> list_all isDigit ds)"

definition parse_exponent :: "string \<Rightarrow> int option" where
  "parse_exponent q =
     (case q of
        [] \<Rightarrow> Some 0
      | c # r \<Rightarrow>
          if c = CHR ''e'' \<or> c = CHR ''E'' then
            (case r of
               [] \<Rightarrow> None
             | sg # ds \<Rightarrow>
                 if sg = CHR ''+'' then (if all_digits ds then Some (int (digits_val ds)) else None)
                 else if sg = CHR ''-'' then (if all_digits ds then Some (- int (digits_val ds)) else None)
                 else (if all_digits r then Some (int (digits_val r)) else None))
          else None)"

definition parse_unsigned_decimal :: "string \<Rightarrow> dec option" where
  "parse_unsigned_decimal r =
     (let ip = takeWhile isDigit r;
          r1 = dropWhile isDigit r;
          fp = (case r1 of [] \<Rightarrow> [] | c # q \<Rightarrow> if c = CHR ''.'' then takeWhile isDigit q else []);
          r2 = (case r1 of [] \<Rightarrow> [] | c # q \<Rightarrow> if c = CHR ''.'' then dropWhile isDigit q else r1)
      in if ip = [] \<and> fp = [] then None
         else (case parse_exponent r2 of
                 None \<Rightarrow> None
               | Some e \<Rightarrow> Some (make_dec (digits_val (ip @ fp)) (e - int (length fp)))))"

definition radix_digit :: "char \<Rightarrow> nat option" where
  "radix_digit c =
     (let n = of_char c :: nat
      in if 48 \<le> n \<and> n \<le> 57 then Some (n - 48)
         else if 97 \<le> n \<and> n \<le> 102 then Some (n - 87)
         else if 65 \<le> n \<and> n \<le> 70 then Some (n - 55)
         else None)"

fun parse_radix :: "nat \<Rightarrow> nat \<Rightarrow> string \<Rightarrow> nat option" where
  "parse_radix b acc [] = Some acc"
| "parse_radix b acc (c # cs) =
     (case radix_digit c of
        None \<Rightarrow> None
      | Some d \<Rightarrow> if d < b then parse_radix b (b * acc + d) cs else None)"

definition radix_of_prefix :: "string \<Rightarrow> nat option" where
  "radix_of_prefix t =
     (case t of
        c0 # c1 # ds \<Rightarrow>
          if c0 \<noteq> CHR ''0'' then None
          else if c1 = CHR ''x'' \<or> c1 = CHR ''X'' then Some 16
          else if c1 = CHR ''o'' \<or> c1 = CHR ''O'' then Some 8
          else if c1 = CHR ''b'' \<or> c1 = CHR ''B'' then Some 2
          else None
      | _ \<Rightarrow> None)"

definition StringToNumber :: "string \<Rightarrow> jsnum" where
  "StringToNumber str =
     (let t = trim str
      in if t = [] then Fin (Dec 0 0)
         else case radix_of_prefix t of
           Some b \<Rightarrow>
             (if drop 2 t = [] then NaN
              else case parse_radix b 0 (drop 2 t) of
                     None \<Rightarrow> NaN
                   | Some n \<Rightarrow> Fin (Dec (int n) 0))
         | None \<Rightarrow>
             (let neg = (hd t = CHR ''-'');
                  r = (if hd t = CHR ''+'' \<or> hd t = CHR ''-'' then tl t else t)
              in if r = ''Infinity'' then (if neg then NegInfinity else PosInfinity)
                 else case parse_unsigned_decimal r of
                        None \<Rightarrow> NaN
                      | Some d \<Rightarrow> Fin (Dec (if neg then - mant d else mant d) (scale d))))"

definition Big_parse :: "string \<Rightarrow> dec option" where
  "Big_parse str =
     (case str of
        [] \<Rightarrow> None
      | c # r \<Rightarrow>
          if c = CHR ''-'' then
            (case parse_unsigned_decimal r of
               None \<Rightarrow> None
             | Some d \<Rightarrow> Some (Dec (- mant d) (scale d)))
          else parse_unsigned_decimal str)"

subsection \<open>Writing numbers\<close>

text \<open>
  Number::toString for radix 10: with \<open>digits\<close> the significant digits, \<open>k\<close> their
  count and \<open>n\<close> the position of the decimal point after the first digit's place, the
  text is plain for \<open>-6 < n \<le> 21\<close> and has an exponent otherwise.
\<close>

definition Number_toString :: "jsnum \<Rightarrow> string" where
  "Number_toString n =
     (case n of
        NaN \<Rightarrow> ''NaN''
      | PosInfinity \<Rightarrow> ''Infinity''
      | NegInfinity \<Rightarrow> ''-Infinity''
      | Fin x \<Rightarrow>
          (case dnorm (mant x) (scale x) of Dec m s \<Rightarrow>
             if m = 0 then ''0''
             else
               (let every = show_nat (nat \<bar>m\<bar>);
                    digits = rev (dropWhile (\<lambda>c. c = CHR ''0'') (rev every));
                    k = int (length digits);
                    n = int (length every) - int s;
                    body =
                      (if k \<le> n \<and> n \<le> 21 then digits @ replicate (nat (n - k)) CHR ''0''
                       else if 0 < n \<and> n \<le> 21 then take (nat n) digits @ ''.'' @ drop (nat n) digits
                       else if - 6 < n \<and> n \<le> 0 then ''0.'' @ replicate (nat (- n)) CHR ''0'' @ digits
                       else
                         (let e = n - 1;
                              es = (if e < 0 then ''-'' else ''+'') @ show_nat (nat \<bar>e\<bar>)
                          in if k = 1 then digits @ ''e'' @ es
                             else take 1 digits @ ''.'' @ drop 1 digits @ ''e'' @ es))
                in (if m < 0 then ''-'' else '''') @ body)))"

text \<open>\<^verbatim>\<open>Number(value)\<close> and \<^verbatim>\<open>value.toString()\<close> on the values of the model. The
  component calls \<^verbatim>\<open>toString\<close> on numbers and strings only.\<close>

definition Number_of :: "jsval \<Rightarrow> jsnum" where
  "Number_of v =
     (case v of
        JUndefined \<Rightarrow> NaN
      | JNull \<Rightarrow> Fin (Dec 0 0)
      | JNum n \<Rightarrow> n
      | JStr s \<Rightarrow> StringToNumber s)"

definition toString :: "jsval \<Rightarrow> string" where
  "toString v = (case v of JStr s \<Rightarrow> s | JNum n \<Rightarrow> Number_toString n | _ \<Rightarrow> [])"

text \<open>
  \<^verbatim>\<open>Big(value)\<close>: a string must match the pattern above; a finite number is converted
  through its text, which denotes the same number; \<^verbatim>\<open>NaN\<close>, the infinities and
  \<^verbatim>\<open>null\<close> are rejected. The component never passes \<^verbatim>\<open>undefined\<close>.
\<close>

definition Big :: "jsval \<Rightarrow> error + dec" where
  "Big v =
     (case v of
        JStr s \<Rightarrow> (case Big_parse s of None \<Rightarrow> Inl InvalidNumber | Some x \<Rightarrow> Inr x)
      | JNum (Fin x) \<Rightarrow> Inr x
      | _ \<Rightarrow> Inl InvalidNumber)"

subsection \<open>The helpers of numberFieldUtil\<close>

text \<open>
  Modelled from the spec: \<^verbatim>\<open>isNullEquivalentValue\<close> of \<^verbatim>\<open>../util/numberFieldUtil\<close>, which
  \<^verbatim>\<open>Number.js\<close> imports and which is not among the sources. The spec names the inputs
  that \<^verbatim>\<open>sanitize\<close> and \<^verbatim>\<open>setFromInput\<close> treat as no value: "null/empty" inputs and
  "empty/whitespace-equivalent input", that is \<^verbatim>\<open>undefined\<close>, \<^verbatim>\<open>null\<close>, and a text
  with nothing but white space in it (the empty text among them).
\<close>

definition isNullEquivalentValue :: "jsval \<Rightarrow> bool" where
  "isNullEquivalentValue v =
     (case v of
        JUndefined \<Rightarrow> True
      | JNull \<Rightarrow> True
      | JStr s \<Rightarrow> list_all isWhiteSpace s
      | JNum n \<Rightarrow> False)"

text \<open>
  Modelled from the spec: \<^verbatim>\<open>isValidNumber\<close> of \<^verbatim>\<open>../util/numberFieldUtil\<close>, not among
  the sources either. The spec has the current value default to 0 "when absent or
  non-numeric" and has \<^verbatim>\<open>sanitize\<close> map an unparsable value to \<^verbatim>\<open>null\<close>: a value is a
  valid number when it is a number other than \<^verbatim>\<open>NaN\<close>, or a text that is not absent
  and that is numeric by the test \<^verbatim>\<open>setValue\<close> itself applies to a text,
  \<^verbatim>\<open>isNaN(Number(text))\<close>.
\<close>

definition isValidNumber :: "jsval \<Rightarrow> bool" where
  "isValidNumber v =
     (case v of
        JNum n \<Rightarrow> \<not> isNaN n
      | JStr s \<Rightarrow> \<not> isNullEquivalentValue (JStr s) \<and> \<not> isNaN (StringToNumber s)
      | _ \<Rightarrow> False)"

subsection \<open>The number field\<close>

text \<open>
  The attributes of the field that the component reads (\<^verbatim>\<open>increment\<close> is bound to
  \<^verbatim>\<open>incrementValue\<close>), and what its handlers write to: the \<^verbatim>\<open>stringValueCache\<close> state
  and the values sent through \<^verbatim>\<open>onChange({ field, value })\<close>, oldest first. The props
  \<^verbatim>\<open>value\<close> and \<^verbatim>\<open>readonly\<close> are arguments. A handler returns \<open>Inl\<close> when the source
  would throw.
\<close>

record numberfield =
  decimalDigits :: "int option"
  serializeToString :: bool
  incrementValue :: jsval

record numberfield_ui =
  stringValueCache :: string
  onChange_values :: "jsval list"

text \<open>\<^verbatim>\<open>stringValue.replaceAll(',', '.')\<close>\<close>

definition replaceAll_comma :: "string \<Rightarrow> string" where
  "replaceAll_comma s = map (\<lambda>c. if c = CHR '','' then CHR ''.'' else c) s"

text \<open>\<^verbatim>\<open>Numberfield.config.sanitizeValue\<close>\<close>

definition sanitizeValue :: "numberfield \<Rightarrow> jsval \<Rightarrow> jsval" where
  "sanitizeValue formField v =
     (if isNullEquivalentValue v \<or> \<not> isValidNumber v then JNull
      else if serializeToString formField then JStr (toString v)
      else JNum (Number_of v))"

text \<open>The memoized \<^verbatim>\<open>cacheValueMatchesState\<close> and \<^verbatim>\<open>displayValue\<close>; the latter throws
  when \<^verbatim>\<open>Big(value)\<close> does.\<close>

definition cacheValueMatchesState :: "numberfield \<Rightarrow> string \<Rightarrow> jsval \<Rightarrow> bool" where
  "cacheValueMatchesState fld cache v =
     strict_eq (sanitizeValue fld v) (sanitizeValue fld (JStr cache))"

definition displayValue :: "numberfield \<Rightarrow> string \<Rightarrow> jsval \<Rightarrow> error + string" where
  "displayValue fld cache v =
     (if v = JStr ''NaN'' then Inr ''NaN''
      else if cache = ''-'' then Inr ''-''
      else if cacheValueMatchesState fld cache v then Inr cache
      else if truthy v \<or> strict_eq v (JNum (Fin (Dec 0 0)))
           then (case Big v of Inl e \<Rightarrow> Inl e | Inr x \<Rightarrow> Inr (Big_toFixed x))
           else Inr '''')"

text \<open>The memoized \<^verbatim>\<open>arrowIncrementValue\<close>; the template literal
  \<^verbatim>\<open>1e-${decimalDigits}\<close> is the text \<^verbatim>\<open>1e-\<close> followed by the digits of the integer. In
  the source an invalid configuration throws while rendering; here the handlers that
  use the value return the error.\<close>

definition arrowIncrementValue :: "numberfield \<Rightarrow> error + dec" where
  "arrowIncrementValue fld =
     (if truthy (incrementValue fld) then Big (incrementValue fld)
      else case decimalDigits fld of
             None \<Rightarrow> Big (JStr ''1'')
           | Some n \<Rightarrow> if n \<noteq> 0 then Big (JStr (''1e-'' @ show_int n)) else Big (JStr ''1''))"

text \<open>\<^verbatim>\<open>setValue\<close>; its argument is a text or \<^verbatim>\<open>null\<close> (\<open>None\<close>), on which
  \<^verbatim>\<open>replaceAll\<close> would be a type error.\<close>

definition setValue :: "numberfield \<Rightarrow> string option \<Rightarrow> numberfield_ui \<Rightarrow> error + numberfield_ui" where
  "setValue fld stringValue u =
     (if isNullEquivalentValue (case stringValue of None \<Rightarrow> JNull | Some s \<Rightarrow> JStr s)
      then Inr (u\<lparr>stringValueCache := '''', onChange_values := onChange_values u @ [JNull]\<rparr>)
      else case stringValue of
        None \<Rightarrow> Inl TypeError
      | Some raw \<Rightarrow>
          (let s = replaceAll_comma raw
           in if s = ''-'' then Inr (u\<lparr>stringValueCache := ''-''\<rparr>)
              else if isNaN (StringToNumber s)
              then Inr (u\<lparr>stringValueCache := ''NaN'',
                         onChange_values := onChange_values u @ [JStr ''NaN'']\<rparr>)
              else Inr (u\<lparr>stringValueCache := s,
                         onChange_values := onChange_values u @
                           [if serializeToString fld then JStr s else JNum (StringToNumber s)]\<rparr>)))"

text \<open>\<^verbatim>\<open>isValidNumber(value) ? Big(value) : Big(0)\<close>, then \<^verbatim>\<open>increment\<close> and
  \<^verbatim>\<open>decrement\<close>.\<close>

definition base_of :: "jsval \<Rightarrow> error + dec" where
  "base_of v = (if isValidNumber v then Big v else Big (JNum (Fin (Dec 0 0))))"

definition increment :: "numberfield \<Rightarrow> jsval \<Rightarrow> bool \<Rightarrow> numberfield_ui \<Rightarrow> error + numberfield_ui" where
  "increment fld v readonly u =
     (if readonly then Inr u
      else case arrowIncrementValue fld of
        Inl e \<Rightarrow> Inl e
      | Inr step \<Rightarrow>
          (case base_of v of
             Inl e \<Rightarrow> Inl e
           | Inr base \<Rightarrow>
               (case Big_mod base step of
                  Inl e \<Rightarrow> Inl e
                | Inr offset \<Rightarrow>
                    (let stepFlooredValue = Big_minus base offset
                     in setValue fld (Some (Big_toFixed (Big_plus stepFlooredValue step))) u))))"

definition decrement :: "numberfield \<Rightarrow> jsval \<Rightarrow> bool \<Rightarrow> numberfield_ui \<Rightarrow> error + numberfield_ui" where
  "decrement fld v readonly u =
     (if readonly then Inr u
      else case arrowIncrementValue fld of
        Inl e \<Rightarrow> Inl e
      | Inr step \<Rightarrow>
          (case base_of v of
             Inl e \<Rightarrow> Inl e
           | Inr base \<Rightarrow>
               (case Big_mod base step of
                  Inl e \<Rightarrow> Inl e
                | Inr offset \<Rightarrow>
                    if Big_cmp0 offset = 0
                    then setValue fld (Some (Big_toFixed (Big_minus base step))) u
                    else (let stepFlooredValue = Big_minus base offset
                          in setValue fld (Some (Big_toFixed stepFlooredValue)) u))))"

text \<open>\<^verbatim>\<open>onKeyDown\<close>, for the \<^verbatim>\<open>code\<close> of the key event; the second component tells
  whether \<^verbatim>\<open>preventDefault\<close> was called.\<close>

definition onKeyDown ::
  "numberfield \<Rightarrow> jsval \<Rightarrow> bool \<Rightarrow> string \<Rightarrow> numberfield_ui \<Rightarrow> (error + numberfield_ui) \<times> bool" where
  "onKeyDown fld v readonly code u =
     (if v = JStr ''NaN'' \<and> (code = ''Backspace'' \<or> code = ''Delete'')
      then (setValue fld None u, True)
      else if code = ''ArrowUp'' then (increment fld v readonly u, True)
      else if code = ''ArrowDown'' then (decrement fld v readonly u, True)
      else (Inr u, False))"

text \<open>The characters that can occur in a decimal literal.\<close>

definition literal_char :: "char \<Rightarrow> bool" where
  "literal_char c =
     (isDigit c \<or> c = CHR ''.'' \<or> c = CHR ''e'' \<or> c = CHR ''E'' \<or> c = CHR ''+'' \<or> c = CHR ''-'')"

text \<open>
  The values the spec allows in the form state for a number field: absent, a number,
  a text that reads as a number (a valid number in both cases), or the sentinel
  \<^verbatim>\<open>"NaN"\<close>.
\<close>

definition canonical :: "jsval \<Rightarrow> bool" where
  "canonical e = (e = JNull \<or> e = JStr ''NaN'' \<or> isValidNumber e)"

section \<open>Properties of the repeat render manager\<close>

lemma length_slice0: "0 \<le> e \<Longrightarrow> length (slice0 xs e) = nat (min e (int (length xs)))"
  by (auto simp: slice0_def Let_def min_def)

lemma slice0_nonneg: "0 \<le> e \<Longrightarrow> slice0 xs e = take (nat e) xs"
  by (auto simp: slice0_def Let_def min_def)

lemma slice0_neg: "e < 0 \<Longrightarrow> slice0 xs e = take (nat (int (length xs) + e)) xs"
  by (auto simp: slice0_def Let_def max_def)

lemma splice1_in_range:
  "0 \<le> i \<Longrightarrow> i < int (length xs) \<Longrightarrow> splice1 xs i = take (nat i) xs @ drop (Suc (nat i)) xs"
  by (simp add: splice1_def Let_def min_def nat_add_distrib)



subsection \<open>The visible items\<close>

text \<open>
  Claim C1, as the code has it. With \<open>N\<close> the cap that \<^verbatim>\<open>_getNonCollapsedItems\<close>
  returns and \<open>L\<close> the length of the backing array: collapsing is enabled exactly when
  \<open>L > N\<close> and \<^verbatim>\<open>disableCollapse\<close> is false; the repeater shows the whole array when
  \<^verbatim>\<open>disableCollapse\<close> is true, when \<open>L \<le> N\<close> or when the shared flag is false; when
  collapsing is enabled and the shared flag is true it shows the first \<open>N\<close> items
  (\<open>min L N\<close> of them) for a cap \<open>N \<ge> 0\<close>, and for a negative cap the first
  \<open>L + N\<close> items (none when \<open>L + N \<le> 0\<close>), since \<^verbatim>\<open>slice\<close> counts a negative end
  from the back.
\<close>

theorem Repeater_displayValues:
  "let vs = values_at frm fld idx;
       N = getNonCollapsedItems fld;
       L = int (length vs);
       v = Repeater frm fld idx st
   in (rv_collapseEnabled v \<longleftrightarrow> L > N \<and> \<not> disableCollapse fld) \<and>
      (disableCollapse fld \<or> L \<le> N \<longrightarrow> displayValues v = vs) \<and>
      (\<not> disableCollapse fld \<and> N < L \<and> \<not> isCollapsed st \<longrightarrow> displayValues v = vs) \<and>
      (\<not> disableCollapse fld \<and> N < L \<and> isCollapsed st \<and> 0 \<le> N \<longrightarrow>
         displayValues v = take (nat N) vs \<and> int (length (displayValues v)) = min L N) \<and>
      (\<not> disableCollapse fld \<and> N < L \<and> isCollapsed st \<and> N < 0 \<longrightarrow>
         displayValues v = take (nat (L + N)) vs)"
  by (auto simp: Repeater_def Let_def slice0_nonneg slice0_neg)

text \<open>The spec's example: a cap of 5, eight items, collapsed: the first five are shown.\<close>

theorem Repeater_displayValues_witness:
  "displayValues
     (Repeater
        \<lparr>getState_data = Some [1, 2, 3, 4, 5, 6, 7, 8 :: int], getValuePath = (\<lambda>f i. []),
         get_path = (\<lambda>d p. d), getInitializedFieldData = (\<lambda>d f i. 0)\<rparr>
        \<lparr>field_id = ''list'', components = Some [''c''], allowAddRemove = True,
         disableCollapse = False, nonCollapsedItems = Some 5\<rparr>
        Map.empty
        \<lparr>isCollapsed = True\<rparr>)
   = [1, 2, 3, 4, 5]"
  using Repeater_displayValues
    [of "\<lparr>getState_data = Some [1, 2, 3, 4, 5, 6, 7, 8 :: int], getValuePath = (\<lambda>f i. []),
          get_path = (\<lambda>d p. d), getInitializedFieldData = (\<lambda>d f i. 0)\<rparr>"
        "\<lparr>field_id = ''list'', components = Some [''c''], allowAddRemove = True,
          disableCollapse = False, nonCollapsedItems = Some 5\<rparr>"
        Map.empty
        "\<lparr>isCollapsed = True\<rparr>"]
  by (simp add: Let_def values_at_def getNonCollapsedItems_def)

text \<open>
  Claim C1 as stated fails for a negative cap: with \<^verbatim>\<open>nonCollapsedItems = -2\<close>, five items
  and the shared flag set, collapsing is enabled (\<open>5 > -2\<close>) and the repeater shows the
  first three items, which is neither \<open>min L N\<close> items nor the whole array.
\<close>

theorem Repeater_displayValues_counterexample:
  "\<not> disableCollapse
       \<lparr>field_id = ''list'', components = Some [''c''], allowAddRemove = True,
        disableCollapse = False, nonCollapsedItems = Some (- 2)\<rparr> \<and>
   getNonCollapsedItems
       \<lparr>field_id = ''list'', components = Some [''c''], allowAddRemove = True,
        disableCollapse = False, nonCollapsedItems = Some (- 2)\<rparr> = - 2 \<and>
   displayValues
     (Repeater
        \<lparr>getState_data = Some [1, 2, 3, 4, 5 :: int], getValuePath = (\<lambda>f i. []),
         get_path = (\<lambda>d p. d), getInitializedFieldData = (\<lambda>d f i. 0)\<rparr>
        \<lparr>field_id = ''list'', components = Some [''c''], allowAddRemove = True,
         disableCollapse = False, nonCollapsedItems = Some (- 2)\<rparr>
        Map.empty
        \<lparr>isCollapsed = True\<rparr>)
   = [1, 2, 3] \<and>
   int (length [1, 2, 3 :: int]) \<noteq> min 5 (- 2) \<and>
   [1, 2, 3] \<noteq> [1, 2, 3, 4, 5 :: int]"
  by (simp add: Repeater_def Let_def values_at_def getNonCollapsedItems_def slice0_def)

subsection \<open>The cap\<close>

text \<open>
  Claim C7, as the code has it: the cap is \<^verbatim>\<open>nonCollapsedItems\<close> whenever that is
  configured and not zero (a truthy number), of either sign, and 5 when it is left out
  or zero. The function is total: no configuration raises an error.
\<close>

theorem getNonCollapsedItems_cap:
  "(\<forall>n. nonCollapsedItems fld = Some n \<and> n \<noteq> 0 \<longrightarrow> getNonCollapsedItems fld = n) \<and>
   (nonCollapsedItems fld = None \<or> nonCollapsedItems fld = Some 0 \<longrightarrow>
      getNonCollapsedItems fld = 5)"
  by (auto simp: getNonCollapsedItems_def)

theorem getNonCollapsedItems_cap_witness:
  "getNonCollapsedItems
     \<lparr>field_id = ''list'', components = None, allowAddRemove = False,
      disableCollapse = False, nonCollapsedItems = Some 3\<rparr> = 3 \<and>
   getNonCollapsedItems
     \<lparr>field_id = ''list'', components = None, allowAddRemove = False,
      disableCollapse = False, nonCollapsedItems = None\<rparr> = 5"
  using getNonCollapsedItems_cap
    [of "\<lparr>field_id = ''list'', components = None, allowAddRemove = False,
          disableCollapse = False, nonCollapsedItems = Some 3\<rparr>"]
    getNonCollapsedItems_cap
    [of "\<lparr>field_id = ''list'', components = None, allowAddRemove = False,
          disableCollapse = False, nonCollapsedItems = None\<rparr>"]
  by simp

text \<open>
  Claim C7 as stated fails: a negative \<^verbatim>\<open>nonCollapsedItems\<close> is not a positive integer,
  yet it is returned as it is and not replaced by the default.
\<close>

theorem getNonCollapsedItems_cap_counterexample:
  "\<not> (0 :: int) < - 3 \<and>
   getNonCollapsedItems
     \<lparr>field_id = ''list'', components = None, allowAddRemove = False,
      disableCollapse = False, nonCollapsedItems = Some (- 3)\<rparr> = - 3 \<and>
   getNonCollapsedItems
     \<lparr>field_id = ''list'', components = None, allowAddRemove = False,
      disableCollapse = False, nonCollapsedItems = Some (- 3)\<rparr> \<noteq> 5"
  by (simp add: getNonCollapsedItems_def)

subsection \<open>Removing an item\<close>

text \<open>
  Claim C8: for an index within \<open>[0, L)\<close> the handler sends exactly one request, at
  once; its array is the backing array without the element at the index, one shorter,
  every other element in its place relative to the others. Nothing else is written.
\<close>

theorem onDeleteItem_in_range:
  "0 \<le> i \<and> i < int (length vs) \<longrightarrow>
   (let u' = onDeleteItem fld idx vs i u;
        c = last (onChange_calls u')
    in onChange_calls u' = onChange_calls u @ [c] \<and>
       ch_field c = fld \<and> ch_indexes c = idx \<and>
       ch_value c = take (nat i) vs @ drop (Suc (nat i)) vs \<and>
       length (ch_value c) = length vs - 1 \<and>
       (\<forall>j. j < nat i \<longrightarrow> ch_value c ! j = vs ! j) \<and>
       (\<forall>j. nat i \<le> j \<and> j < length vs - 1 \<longrightarrow> ch_value c ! j = vs ! Suc j) \<and>
       shared u' = shared u \<and> shouldScroll u' = shouldScroll u)"
  by (auto simp: onDeleteItem_def Let_def splice1_in_range nth_append min_def)

theorem onDeleteItem_in_range_witness:
  "map ch_value (onChange_calls
     (onDeleteItem
        \<lparr>field_id = ''list'', components = Some [''c''], allowAddRemove = True,
         disableCollapse = False, nonCollapsedItems = None\<rparr>
        Map.empty [10, 20, 30 :: int] 1
        \<lparr>onChange_calls = [], shared = \<lparr>isCollapsed = False\<rparr>, shouldScroll = False\<rparr>))
   = [[10, 30]]"
  using onDeleteItem_in_range
    [of 1 "[10, 20, 30 :: int]"
        "\<lparr>field_id = ''list'', components = Some [''c''], allowAddRemove = True,
          disableCollapse = False, nonCollapsedItems = None\<rparr>"
        Map.empty
        "\<lparr>onChange_calls = [], shared = \<lparr>isCollapsed = False\<rparr>, shouldScroll = False\<rparr>"]
  by (simp add: Let_def onDeleteItem_def splice1_def)




subsection \<open>Adding an item\<close>

text \<open>
  Claim C5: the add handler sends exactly one request; its array is one longer than
  the backing array, agrees with it on the first \<open>L\<close> positions and ends with the item
  the form's initializer returns for the indexes extended by this field at position
  \<open>L\<close>. The shared state is set to expanded and the scroll flag is raised.
\<close>

theorem onAddItem_appends:
  "let u' = onAddItem frm fld idx vs u;
       c = last (onChange_calls u');
       newItem = getInitializedFieldData frm (getState_data frm) fld
                   (idx(field_id fld \<mapsto> int (length vs)))
   in onChange_calls u' = onChange_calls u @ [c] \<and>
      ch_field c = fld \<and> ch_indexes c = idx \<and>
      length (ch_value c) = length vs + 1 \<and>
      take (length vs) (ch_value c) = vs \<and>
      ch_value c ! length vs = newItem \<and>
      isCollapsed (shared u') = False \<and>
      sharedRepeatState.more (shared u') = sharedRepeatState.more (shared u) \<and>
      shouldScroll u' = True"
  by (simp add: onAddItem_def Let_def)

lemma RepeatFooter_add_button:
  "add_button (RepeatFooter frm fld idx ro dis u) = Some (d, h) \<Longrightarrow>
   h = onAddItem frm fld idx (values_at frm fld idx) \<and> d = (dis \<or> ro)"
  by (auto simp: RepeatFooter_def Let_def split: if_splits)

subsection \<open>Toggling\<close>

text \<open>
  Claim C9: whenever the footer renders the collapse button, its handler, run on the
  state the footer was rendered in, negates the shared \<^verbatim>\<open>isCollapsed\<close> flag, keeps the
  rest of the shared state, sends no request and leaves the scroll flag alone. The
  handler has no access to the form data.
\<close>

theorem toggle_negates:
  "collapse_button (RepeatFooter frm fld idx ro dis u) = Some h \<longrightarrow>
   isCollapsed (shared (h u)) = (\<not> isCollapsed (shared u)) \<and>
   sharedRepeatState.more (shared (h u)) = sharedRepeatState.more (shared u) \<and>
   onChange_calls (h u) = onChange_calls u \<and>
   shouldScroll (h u) = shouldScroll u"
  by (auto simp: RepeatFooter_def Let_def toggle_def split: if_splits)

theorem toggle_negates_witness:
  "(case collapse_button
      (RepeatFooter
        \<lparr>getState_data = Some [1, 2, 3, 4, 5, 6, 7, 8 :: int], getValuePath = (\<lambda>f i. []),
         get_path = (\<lambda>d p. d), getInitializedFieldData = (\<lambda>d f i. 0)\<rparr>
        \<lparr>field_id = ''list'', components = Some [''c''], allowAddRemove = True,
         disableCollapse = False, nonCollapsedItems = Some 5\<rparr>
        Map.empty False False
        \<lparr>onChange_calls = [], shared = \<lparr>isCollapsed = True\<rparr>, shouldScroll = False\<rparr>) of
     None \<Rightarrow> False
   | Some h \<Rightarrow>
       h \<lparr>onChange_calls = [], shared = \<lparr>isCollapsed = True\<rparr>, shouldScroll = False\<rparr>
       = \<lparr>onChange_calls = [], shared = \<lparr>isCollapsed = False\<rparr>, shouldScroll = False\<rparr>)"
  using toggle_negates
    [of "\<lparr>getState_data = Some [1, 2, 3, 4, 5, 6, 7, 8 :: int], getValuePath = (\<lambda>f i. []),
          get_path = (\<lambda>d p. d), getInitializedFieldData = (\<lambda>d f i. 0)\<rparr>"
        "\<lparr>field_id = ''list'', components = Some [''c''], allowAddRemove = True,
          disableCollapse = False, nonCollapsedItems = Some 5\<rparr>"
        Map.empty False False
        "\<lparr>onChange_calls = [], shared = \<lparr>isCollapsed = True\<rparr>, shouldScroll = False\<rparr>"]
  by (simp add: RepeatFooter_def Let_def values_at_def getNonCollapsedItems_def toggle_def)

section \<open>Properties of the number field\<close>

subsection \<open>Digits\<close>

lemma digit_cases: "n < 10 \<Longrightarrow> n \<in> {0, 1, 2, 3, 4, 5, 6, 7, 8, 9 :: nat}"
  by auto

lemma digit_val_digit_of: "n < 10 \<Longrightarrow> digit_val (digit_of n) = n"
  by (drule digit_cases) (auto simp: digit_val_def digit_of_def)

lemma isDigit_digit_of: "n < 10 \<Longrightarrow> isDigit (digit_of n)"
  by (drule digit_cases) (auto simp: isDigit_def digit_of_def)

lemma digits_val_snoc: "digits_val (ds @ [c]) = 10 * digits_val ds + digit_val c"
  by (simp add: digits_val_def)

lemma digits_val_show_nat: "digits_val (show_nat n) = n"
proof (induction n rule: show_nat.induct)
  case (1 n)
  show ?case
  proof (cases "n < 10")
    case True
    then show ?thesis
      by (subst show_nat.simps) (simp add: digits_val_def digit_val_digit_of)
  next
    case False
    with 1 show ?thesis
      by (subst show_nat.simps) (simp add: digits_val_snoc digit_val_digit_of)
  qed
qed

lemma show_nat_digits: "list_all isDigit (show_nat n)"
proof (induction n rule: show_nat.induct)
  case (1 n)
  then show ?case
    by (subst show_nat.simps) (simp add: isDigit_digit_of)
qed

lemma show_nat_nonempty: "show_nat n \<noteq> []"
  by (subst show_nat.simps) simp

lemma length_show_nat: "n < 10 ^ k \<Longrightarrow> 0 < k \<Longrightarrow> length (show_nat n) \<le> k"
proof (induction n arbitrary: k rule: show_nat.induct)
  case (1 n)
  show ?case
  proof (cases "n < 10")
    case True
    with 1(3) show ?thesis
      by (subst show_nat.simps) simp
  next
    case False
    obtain j where k: "k = Suc j" using 1(3) by (cases k) auto
    from False 1(2) k have "0 < j" by (cases j) auto
    moreover from 1(2) k have "n div 10 < 10 ^ j" by (simp add: less_mult_imp_div_less mult.commute)
    ultimately have "length (show_nat (n div 10)) \<le> j"
      using 1(1) False by simp
    with False k show ?thesis
      by (subst show_nat.simps) simp
  qed
qed

lemma digits_val_append:
  "digits_val (xs @ ys) = digits_val xs * 10 ^ length ys + digits_val ys"
proof (induction ys rule: rev_induct)
  case Nil
  then show ?case by (simp add: digits_val_def)
next
  case (snoc y ys)
  have "digits_val (xs @ ys @ [y]) = 10 * digits_val (xs @ ys) + digit_val y"
    using digits_val_snoc [of "xs @ ys" y] by simp
  with snoc show ?case
    by (simp add: digits_val_snoc algebra_simps)
qed

lemma digits_val_zeros: "digits_val (replicate k CHR ''0'' @ ds) = digits_val ds"
  by (induction k) (simp_all add: digits_val_def digit_val_def)

lemma digits_val_pad: "digits_val (pad_zeros k ds) = digits_val ds"
  by (simp add: pad_zeros_def digits_val_zeros)

lemma length_pad: "length ds \<le> k \<Longrightarrow> length (pad_zeros k ds) = k"
  by (simp add: pad_zeros_def)

lemma isDigit_zero: "isDigit CHR ''0''"
  by (simp add: isDigit_def)

lemma pad_digits: "list_all isDigit ds \<Longrightarrow> list_all isDigit (pad_zeros k ds)"
  by (auto simp: pad_zeros_def list_all_iff isDigit_zero)

subsection \<open>Reading back what toFixed prints\<close>

lemma dnorm_value: "dnorm m s = Dec m' s' \<Longrightarrow> m * 10 ^ s' = m' * 10 ^ s"
proof (induction s arbitrary: m)
  case 0
  then show ?case by simp
next
  case (Suc k)
  show ?case
  proof (cases "m mod 10 = 0")
    case True
    with Suc.prems have "dnorm (m div 10) k = Dec m' s'" by simp
    then have "(m div 10) * 10 ^ s' = m' * 10 ^ k" by (rule Suc.IH)
    moreover from True have "m = 10 * (m div 10)" by presburger
    ultimately show ?thesis
      by (metis mult.assoc mult.commute power_Suc)
  next
    case False
    with Suc.prems show ?thesis by simp
  qed
qed

lemma dec_eq_dnorm: "dec_eq (dnorm (mant x) (scale x)) x"
proof (cases "dnorm (mant x) (scale x)")
  case (Dec m' s')
  from dnorm_value [OF this] Dec show ?thesis
    by (simp add: dec_eq_def)
qed

lemma not_isDigit_dot: "\<not> isDigit CHR ''.''"
  by (simp add: isDigit_def)

lemma span_digits:
  "list_all isDigit xs \<Longrightarrow> ys = [] \<or> \<not> isDigit (hd ys) \<Longrightarrow>
   takeWhile isDigit (xs @ ys) = xs \<and> dropWhile isDigit (xs @ ys) = ys"
  by (cases ys) (auto simp: list_all_iff takeWhile_append dropWhile_append)

lemma span_all_digits:
  "list_all isDigit xs \<Longrightarrow> takeWhile isDigit xs = xs \<and> dropWhile isDigit xs = []"
  by (simp add: list_all_iff)

lemma parse_unsigned_decimal_integer:
  "parse_unsigned_decimal (show_nat a) = Some (Dec (int a) 0)"
proof -
  have 1: "takeWhile isDigit (show_nat a) = show_nat a"
    and 2: "dropWhile isDigit (show_nat a) = []"
    using show_nat_digits [of a] by (simp_all add: list_all_iff)
  show ?thesis
    by (simp add: parse_unsigned_decimal_def Let_def 1 2 parse_exponent_def make_dec_def
        show_nat_nonempty digits_val_show_nat)
qed

lemma parse_unsigned_decimal_fraction:
  assumes "list_all isDigit P"
  shows "parse_unsigned_decimal (show_nat a @ CHR ''.'' # P) =
           Some (Dec (int (a * 10 ^ length P + digits_val P)) (length P))"
proof -
  have 1: "takeWhile isDigit (show_nat a @ CHR ''.'' # P) = show_nat a"
    and 2: "dropWhile isDigit (show_nat a @ CHR ''.'' # P) = CHR ''.'' # P"
    using span_digits [OF show_nat_digits, of "CHR ''.'' # P" a]
    by (simp_all add: not_isDigit_dot)
  have 3: "takeWhile isDigit P = P" and 4: "dropWhile isDigit P = []"
    using assms by (simp_all add: list_all_iff)
  show ?thesis
    by (simp add: parse_unsigned_decimal_def Let_def 1 2 3 4 parse_exponent_def make_dec_def
        show_nat_nonempty digits_val_append digits_val_show_nat)
qed

lemma isDigit_not_space: "isDigit c \<Longrightarrow> \<not> isWhiteSpace c"
  by (auto simp: isDigit_def isWhiteSpace_def)

lemma isDigit_not_sign: "isDigit c \<Longrightarrow> c \<noteq> CHR ''-'' \<and> c \<noteq> CHR ''+'' \<and> c \<noteq> CHR ''I'' \<and> c \<noteq> CHR '',''"
  by (auto simp: isDigit_def)

lemma minus_not_space: "\<not> isWhiteSpace CHR ''-''"
  by (simp add: isWhiteSpace_def)

lemma trim_id:
  assumes "s \<noteq> []" and "\<not> isWhiteSpace (hd s)" and "\<not> isWhiteSpace (last s)"
  shows "trim s = s"
proof -
  have 1: "dropWhile isWhiteSpace s = s"
    using assms(1,2) by (cases s) simp_all
  have 2: "dropWhile isWhiteSpace (rev s) = rev s"
    using assms(1,3) by (simp add: dropWhile_eq_self_iff hd_rev)
  show ?thesis
    by (simp add: trim_def 1 2)
qed

lemma int_div_mod_pow: "int (a div 10 ^ s) * 10 ^ s + int (a mod 10 ^ s) = int a"
  by (metis mult_div_mod_eq mult_of_nat_commute of_nat_numeral of_nat_power zdiv_int zmod_int)

lemma StringToNumber_unsigned:
  assumes "body \<noteq> []" and "isDigit (hd body)" and "isDigit (last body)"
    and "radix_of_prefix body = None" and "parse_unsigned_decimal body = Some d"
  shows "StringToNumber body = Fin d"
    and "StringToNumber (CHR ''-'' # body) = Fin (Dec (- mant d) (scale d))"
proof -
  from assms(1,2) have inf: "body \<noteq> ''Infinity''"
    by (auto simp: isDigit_def)
  have t1: "trim body = body"
    using assms(1-3) by (simp add: trim_id isDigit_not_space)
  have t2: "trim (CHR ''-'' # body) = CHR ''-'' # body"
    using assms(1,3) by (simp add: trim_id isDigit_not_space minus_not_space)
  have r2: "radix_of_prefix (CHR ''-'' # body) = None"
    by (simp add: radix_of_prefix_def split: list.splits)
  show "StringToNumber body = Fin d"
    using assms inf isDigit_not_sign [OF assms(2)]
    by (simp add: StringToNumber_def Let_def t1)
  show "StringToNumber (CHR ''-'' # body) = Fin (Dec (- mant d) (scale d))"
    using assms inf
    by (simp add: StringToNumber_def Let_def t2 r2)
qed

lemma radix_of_prefix_decimal:
  "list_all (\<lambda>c. isDigit c \<or> c = CHR ''.'') t \<Longrightarrow> radix_of_prefix t = None"
  by (auto simp: radix_of_prefix_def isDigit_def split: list.splits)

lemma list_all_hd: "list_all P xs \<Longrightarrow> xs \<noteq> [] \<Longrightarrow> P (hd xs)"
  by (cases xs) simp_all

lemma list_all_last: "list_all P xs \<Longrightarrow> xs \<noteq> [] \<Longrightarrow> P (last xs)"
  by (simp add: list_all_iff)

lemma Big_toFixed_body:
  "dnorm (mant x) (scale x) = Dec m s \<Longrightarrow>
   Big_toFixed x = (if m < 0 then ''-'' else []) @ fixed_body (nat \<bar>m\<bar>) s"
  by (simp add: Big_toFixed_def fixed_body_def)

lemma fixed_body_props:
  "fixed_body a s \<noteq> []"
  "isDigit (hd (fixed_body a s))"
  "isDigit (last (fixed_body a s))"
  "list_all (\<lambda>c. isDigit c \<or> c = CHR ''.'') (fixed_body a s)"
  "parse_unsigned_decimal (fixed_body a s) = Some (Dec (int a) s)"
proof -
  let ?P = "pad_zeros s (show_nat (a mod 10 ^ s))"
  have P: "list_all isDigit ?P"
    by (rule pad_digits) (rule show_nat_digits)
  have len: "0 < s \<Longrightarrow> length ?P = s"
    by (rule length_pad) (simp add: length_show_nat)
  show "fixed_body a s \<noteq> []"
    by (simp add: fixed_body_def show_nat_nonempty)
  show "isDigit (hd (fixed_body a s))"
    using list_all_hd [OF show_nat_digits show_nat_nonempty, of "a div 10 ^ s"]
    by (simp add: fixed_body_def show_nat_nonempty)
  show "isDigit (last (fixed_body a s))"
  proof (cases "s = 0")
    case True
    then show ?thesis
      using list_all_last [OF show_nat_digits show_nat_nonempty, of a]
      by (simp add: fixed_body_def)
  next
    case False
    with len have "?P \<noteq> []" by auto
    with False show ?thesis
      using list_all_last [OF P] by (simp add: fixed_body_def)
  qed
  show "list_all (\<lambda>c. isDigit c \<or> c = CHR ''.'') (fixed_body a s)"
    using P show_nat_digits [of "a div 10 ^ s"]
    by (auto simp: fixed_body_def list_all_iff)
  show "parse_unsigned_decimal (fixed_body a s) = Some (Dec (int a) s)"
  proof (cases "s = 0")
    case True
    then show ?thesis
      by (simp add: fixed_body_def parse_unsigned_decimal_integer)
  next
    case False
    with len have l: "length ?P = s" by simp
    have "parse_unsigned_decimal (show_nat (a div 10 ^ s) @ CHR ''.'' # ?P) =
            Some (Dec (int ((a div 10 ^ s) * 10 ^ length ?P + digits_val ?P)) (length ?P))"
      by (rule parse_unsigned_decimal_fraction) (rule P)
    with False show ?thesis
      by (simp add: fixed_body_def l digits_val_pad digits_val_show_nat int_div_mod_pow)
  qed
qed

lemma StringToNumber_toFixed:
  "StringToNumber (Big_toFixed x) = Fin (dnorm (mant x) (scale x))"
proof (cases "dnorm (mant x) (scale x)")
  case (Dec m s)
  note b = fixed_body_props [of "nat \<bar>m\<bar>" s]
  have r: "radix_of_prefix (fixed_body (nat \<bar>m\<bar>) s) = None"
    by (rule radix_of_prefix_decimal) (rule b(4))
  note n = StringToNumber_unsigned [OF b(1) b(2) b(3) r b(5)]
  show ?thesis
  proof (cases "m < 0")
    case True
    with n(2) Dec show ?thesis
      by (simp add: Big_toFixed_body [OF Dec])
  next
    case False
    with n(1) Dec show ?thesis
      by (simp add: Big_toFixed_body [OF Dec])
  qed
qed




lemma Big_toFixed_not_blank: "\<not> isNullEquivalentValue (JStr (Big_toFixed x))"
proof (cases "dnorm (mant x) (scale x)")
  case (Dec m s)
  from fixed_body_props(1,2) [of "nat \<bar>m\<bar>" s] show ?thesis
    by (cases "fixed_body (nat \<bar>m\<bar>) s")
      (auto simp: Big_toFixed_body [OF Dec] isNullEquivalentValue_def isDigit_not_space minus_not_space)
qed

subsection \<open>Texts that big.js accepts\<close>

lemma literal_char_digit: "isDigit c \<Longrightarrow> literal_char c"
  by (simp add: literal_char_def)

lemma literal_char_not_space: "literal_char c \<Longrightarrow> \<not> isWhiteSpace c"
  by (auto simp: literal_char_def isWhiteSpace_def isDigit_def)

lemma all_digits_literal: "all_digits ds \<Longrightarrow> list_all literal_char ds"
  by (auto simp: all_digits_def list_all_iff literal_char_digit)

lemma parse_exponent_chars: "parse_exponent q = Some e \<Longrightarrow> list_all literal_char q"
  by (auto simp: parse_exponent_def literal_char_def all_digits_def list_all_iff
      split: list.splits if_splits)

lemma takeWhile_digits_literal: "list_all literal_char (takeWhile isDigit r)"
  by (induction r) (simp_all add: literal_char_digit)

lemma parse_unsigned_decimal_chars:
  assumes "parse_unsigned_decimal r = Some d"
  shows "list_all literal_char r \<and> r \<noteq> [] \<and> (isDigit (hd r) \<or> hd r = CHR ''.'')"
proof -
  let ?ip = "takeWhile isDigit r" and ?r1 = "dropWhile isDigit r"
  have split: "r = ?ip @ ?r1"
    by simp
  show ?thesis
  proof (cases ?r1)
    case Nil
    with assms have "?ip \<noteq> []"
      by (simp add: parse_unsigned_decimal_def Let_def split: if_splits)
    moreover from Nil split have "r = ?ip"
      by (metis append_Nil2)
    ultimately have "r \<noteq> []" and "isDigit (hd r)"
      by (metis takeWhile.simps(1), metis hd_in_set set_takeWhileD takeWhile.simps(1))
    moreover have "list_all literal_char r"
      using \<open>r = ?ip\<close> takeWhile_digits_literal [of r] by simp
    ultimately show ?thesis by simp
  next
    case (Cons c q)
    show ?thesis
    proof (cases "c = CHR ''.''")
      case True
      let ?fp = "takeWhile isDigit q" and ?r2 = "dropWhile isDigit q"
      from assms Cons True obtain e where e: "parse_exponent ?r2 = Some e"
        and ne: "?ip \<noteq> [] \<or> ?fp \<noteq> []"
        by (auto simp: parse_unsigned_decimal_def Let_def split: if_splits option.splits)
      have q: "q = ?fp @ ?r2" by simp
      have "list_all literal_char q"
        using takeWhile_digits_literal [of q] parse_exponent_chars [OF e] q
        by (metis list_all_append)
      with Cons True have "list_all literal_char ?r1"
        by (simp add: literal_char_def)
      with takeWhile_digits_literal [of r] split have all: "list_all literal_char r"
        by (metis list_all_append)
      have "r \<noteq> []" using Cons split by auto
      moreover have "isDigit (hd r) \<or> hd r = CHR ''.''"
      proof (cases "?ip = []")
        case True
        with split Cons \<open>c = CHR ''.''\<close> show ?thesis by simp
      next
        case False
        then have "isDigit (hd r)"
          by (metis hd_in_set set_takeWhileD takeWhile.simps(1) hd_append2 split)
        then show ?thesis by simp
      qed
      ultimately show ?thesis using all by simp
    next
      case False
      from assms Cons False obtain e where e: "parse_exponent ?r1 = Some e"
        and ne: "?ip \<noteq> []"
        by (auto simp: parse_unsigned_decimal_def Let_def split: if_splits option.splits)
      from takeWhile_digits_literal [of r] parse_exponent_chars [OF e] split
      have all: "list_all literal_char r"
        by (metis list_all_append)
      from ne have "isDigit (hd r)"
        by (metis hd_in_set set_takeWhileD takeWhile.simps(1) hd_append2 split)
      moreover have "r \<noteq> []" using ne by auto
      ultimately show ?thesis using all by simp
    qed
  qed
qed

lemma num_eq_refl: "\<not> isNaN n \<Longrightarrow> num_eq n n"
  by (cases n) (simp_all add: isNaN_def dec_eq_def)

lemma radix_of_prefix_literal: "list_all literal_char t \<Longrightarrow> radix_of_prefix t = None"
  by (auto simp: radix_of_prefix_def literal_char_def isDigit_def split: list.splits)

lemma literal_not_Infinity: "list_all literal_char t \<Longrightarrow> t \<noteq> ''Infinity''"
  by (auto simp: literal_char_def isDigit_def)

lemma list_all_last_literal: "list_all literal_char t \<Longrightarrow> t \<noteq> [] \<Longrightarrow> literal_char (last t)"
  by (simp add: list_all_iff)

lemma StringToNumber_of_Big_parse:
  assumes "Big_parse str = Some d"
  shows "StringToNumber str = Fin d"
proof (cases str)
  case Nil
  with assms show ?thesis by (simp add: Big_parse_def)
next
  case (Cons c r)
  show ?thesis
  proof (cases "c = CHR ''-''")
    case True
    with assms Cons obtain d0 where d0: "parse_unsigned_decimal r = Some d0"
      and d: "d = Dec (- mant d0) (scale d0)"
      by (auto simp: Big_parse_def split: option.splits)
    from parse_unsigned_decimal_chars [OF d0]
    have r: "list_all literal_char r" "r \<noteq> []" "isDigit (hd r) \<or> hd r = CHR ''.''"
      by simp_all
    have "\<not> isWhiteSpace (last r)"
      using list_all_last_literal [OF r(1) r(2)] by (rule literal_char_not_space)
    with r(2) have t: "trim (CHR ''-'' # r) = CHR ''-'' # r"
      by (simp add: trim_id minus_not_space)
    have p: "radix_of_prefix (CHR ''-'' # r) = None"
      by (simp add: radix_of_prefix_def split: list.splits)
    from literal_not_Infinity [OF r(1)] d0 d True Cons show ?thesis
      by (simp add: StringToNumber_def Let_def t p)
  next
    case False
    with assms Cons have d: "parse_unsigned_decimal str = Some d"
      by (simp add: Big_parse_def)
    from parse_unsigned_decimal_chars [OF d]
    have r: "list_all literal_char str" "str \<noteq> []" "isDigit (hd str) \<or> hd str = CHR ''.''"
      by simp_all
    from r(3) have sg: "hd str \<noteq> CHR ''+''" "hd str \<noteq> CHR ''-''" "\<not> isWhiteSpace (hd str)"
      by (auto simp: isDigit_def isWhiteSpace_def)
    have "\<not> isWhiteSpace (last str)"
      using list_all_last_literal [OF r(1) r(2)] by (rule literal_char_not_space)
    with r(2) sg(3) have t: "trim str = str"
      by (simp add: trim_id)
    from literal_not_Infinity [OF r(1)] radix_of_prefix_literal [OF r(1)] d sg r(2) show ?thesis
      by (simp add: StringToNumber_def Let_def t)
  qed
qed

subsection \<open>What setValue hands to the form\<close>

lemma StringToNumber_minus: "StringToNumber ''-'' = NaN"
  by code_simp

lemma canonical_minus: "\<not> canonical (JStr ''-'')"
  by (simp add: canonical_def isValidNumber_def StringToNumber_minus isNaN_def)




subsection \<open>Clearing the sentinel\<close>

text \<open>
  Claim C10: when the value of the field is the sentinel \<^verbatim>\<open>"NaN"\<close>, the Backspace key
  and the Delete key clear the whole value at once: the cache becomes the empty text,
  \<^verbatim>\<open>null\<close> is sent to the form, and the default action of the key is prevented.
\<close>

theorem onKeyDown_NaN:
  "code = ''Backspace'' \<or> code = ''Delete'' \<longrightarrow>
   onKeyDown fld (JStr ''NaN'') readonly code u =
     (Inr (u\<lparr>stringValueCache := [], onChange_values := onChange_values u @ [JNull]\<rparr>), True)"
  by (simp add: onKeyDown_def setValue_def isNullEquivalentValue_def)

theorem onKeyDown_NaN_witness:
  "onKeyDown \<lparr>decimalDigits = None, serializeToString = False, incrementValue = JUndefined\<rparr>
     (JStr ''NaN'') False ''Backspace'' \<lparr>stringValueCache = ''NaN'', onChange_values = []\<rparr>
   = (Inr \<lparr>stringValueCache = [], onChange_values = [JNull]\<rparr>, True)"
  using onKeyDown_NaN
    [of "''Backspace''" "\<lparr>decimalDigits = None, serializeToString = False, incrementValue = JUndefined\<rparr>"
        False "\<lparr>stringValueCache = ''NaN'', onChange_values = []\<rparr>"]
  by simp

subsection \<open>Stepping\<close>


















subsection \<open>Displaying and sanitizing\<close>

lemma dec_eq_sym: "dec_eq x y = dec_eq y x"
  by (auto simp: dec_eq_def)

lemma num_eq_sym: "num_eq a b = num_eq b a"
  by (cases a; cases b) (simp_all add: dec_eq_sym)

lemma strict_eq_sym: "strict_eq a b = strict_eq b a"
  by (cases a; cases b) (auto simp: num_eq_sym)

lemma strict_eq_null: "strict_eq JNull x = (x = JNull)"
  by (cases x) simp_all

lemma strict_eq_str: "strict_eq (JStr s) x = (x = JStr s)"
  by (cases x) auto

lemma StringToNumber_NaN: "StringToNumber ''NaN'' = NaN"
  by code_simp

lemma sanitizeValue_null: "sanitizeValue fld JNull = JNull"
  by (simp add: sanitizeValue_def isNullEquivalentValue_def)

lemma sanitizeValue_empty: "sanitizeValue fld (JStr []) = JNull"
  by (simp add: sanitizeValue_def isNullEquivalentValue_def)

lemma sanitizeValue_minus: "sanitizeValue fld (JStr ''-'') = JNull"
  by (simp add: sanitizeValue_def isValidNumber_def StringToNumber_minus isNaN_def)

lemma sanitizeValue_number_mode:
  "\<not> serializeToString fld \<Longrightarrow>
   sanitizeValue fld v = JNull \<or> (\<exists>n. sanitizeValue fld v = JNum n \<and> \<not> isNaN n)"
  by (cases v) (auto simp: sanitizeValue_def isValidNumber_def Number_of_def)

lemma sanitizeValue_number:
  "\<not> serializeToString fld \<Longrightarrow> \<not> isNaN n \<Longrightarrow> sanitizeValue fld (JNum n) = JNum n"
  by (simp add: sanitizeValue_def isValidNumber_def Number_of_def isNullEquivalentValue_def)

lemma sanitizeValue_toFixed:
  "\<not> serializeToString fld \<Longrightarrow>
   sanitizeValue fld (JStr (Big_toFixed x)) = JNum (Fin (dnorm (mant x) (scale x)))"
  by (simp add: sanitizeValue_def isValidNumber_def Number_of_def Big_toFixed_not_blank
      StringToNumber_toFixed isNaN_def)

lemma sanitizeValue_string_mode:
  "serializeToString fld \<Longrightarrow> sanitizeValue fld (JStr s) \<noteq> JNull \<Longrightarrow>
   sanitizeValue fld (JStr s) = JStr s \<and> s \<noteq> ''NaN''"
  by (auto simp: sanitizeValue_def toString_def isValidNumber_def StringToNumber_NaN isNaN_def
      split: if_splits)

lemma displayValue_null:
  assumes "cache \<noteq> ''-''" and "displayValue fld cache JNull = Inr t"
  shows "sanitizeValue fld (JStr t) = JNull"
proof (cases "cacheValueMatchesState fld cache JNull")
  case True
  with assms have "t = cache"
    by (simp add: displayValue_def)
  with True show ?thesis
    by (simp add: cacheValueMatchesState_def sanitizeValue_null strict_eq_null)
next
  case False
  with assms have "t = []"
    by (simp add: displayValue_def)
  then show ?thesis
    by (simp add: sanitizeValue_empty)
qed

lemma displayValue_number:
  assumes "\<not> serializeToString fld" and "\<not> isNaN n"
    and "cache \<noteq> ''-''" and "displayValue fld cache (JNum n) = Inr t"
  shows "strict_eq (sanitizeValue fld (JStr t)) (JNum n)"
proof (cases "cacheValueMatchesState fld cache (JNum n)")
  case True
  with assms have "t = cache"
    by (simp add: displayValue_def)
  with True assms(1,2) show ?thesis
    by (simp add: cacheValueMatchesState_def sanitizeValue_number strict_eq_sym)
next
  case False
  show ?thesis
  proof (cases n)
    case (Fin x)
    have "truthy (JNum (Fin x)) \<or> strict_eq (JNum (Fin x)) (JNum (Fin (Dec 0 0)))"
      by (simp add: dec_eq_def)
    with False assms(3,4) Fin have "t = Big_toFixed x"
      by (auto simp: displayValue_def Big_def)
    with assms(1) Fin show ?thesis
      by (simp add: sanitizeValue_toFixed dec_eq_dnorm)
  next
    case NaN
    with assms(2) show ?thesis by (simp add: isNaN_def)
  next
    case PosInfinity
    with False assms(3,4) show ?thesis
      by (simp add: displayValue_def Big_def)
  next
    case NegInfinity
    with False assms(3,4) show ?thesis
      by (simp add: displayValue_def Big_def)
  qed
qed

lemma sanitizeValue_toFixed_string:
  "serializeToString fld \<Longrightarrow> sanitizeValue fld (JStr (Big_toFixed x)) = JStr (Big_toFixed x)"
  by (simp add: sanitizeValue_def isValidNumber_def toString_def Big_toFixed_not_blank
      StringToNumber_toFixed isNaN_def)

lemma displayValue_string:
  assumes str: "serializeToString fld" and sv: "sanitizeValue fld (JStr s) \<noteq> JNull"
    and c: "cache \<noteq> ''-''" and d: "displayValue fld cache (sanitizeValue fld (JStr s)) = Inr t"
  shows "sanitizeValue fld (JStr t) = JStr t \<and> num_eq (StringToNumber t) (StringToNumber s)"
proof -
  from sanitizeValue_string_mode [OF str sv]
  have s: "sanitizeValue fld (JStr s) = JStr s" "s \<noteq> ''NaN''"
    by simp_all
  from sv have valid: "\<not> isNaN (StringToNumber s)" and nonempty: "s \<noteq> []"
    by (auto simp: sanitizeValue_def isValidNumber_def isNullEquivalentValue_def split: if_splits)
  show ?thesis
  proof (cases "cacheValueMatchesState fld cache (JStr s)")
    case True
    with s have "sanitizeValue fld (JStr cache) = JStr s"
      by (simp add: cacheValueMatchesState_def strict_eq_str)
    with str have "cache = s"
      by (auto simp: sanitizeValue_def toString_def split: if_splits)
    moreover from True c d s have "t = cache"
      by (simp add: displayValue_def)
    ultimately show ?thesis
      using s valid by (simp add: num_eq_refl)
  next
    case False
    with c d s nonempty obtain x where x: "Big_parse s = Some x" and t: "t = Big_toFixed x"
      by (auto simp: displayValue_def Big_def split: option.splits)
    from StringToNumber_of_Big_parse [OF x] t str show ?thesis
      by (simp add: sanitizeValue_toFixed_string StringToNumber_toFixed dec_eq_dnorm)
  qed
qed

text \<open>
  Claim C6, as the code has it: for a cache other than \<^verbatim>\<open>-\<close>, whenever
  \<^verbatim>\<open>displayValue\<close> returns a text for the sanitized value, sanitizing that text gives
  the sanitized value again, provided the field stores numbers (no
  \<^verbatim>\<open>serializeToString\<close>), or the sanitized value is \<^verbatim>\<open>null\<close>, or the value is a text
  and the cache matches it. With \<^verbatim>\<open>serializeToString\<close> and a value that is a text,
  sanitizing the text displayed gives that text, and it reads as the same number as
  the sanitized value. For the cache \<^verbatim>\<open>-\<close> the text displayed is \<^verbatim>\<open>-\<close> whatever the
  value (the sentinel apart), and \<^verbatim>\<open>-\<close> sanitizes to \<^verbatim>\<open>null\<close>.
\<close>

theorem displayValue_roundtrip:
  "(cache \<noteq> ''-'' \<and> displayValue fld cache (sanitizeValue fld v) = Inr t \<and>
    (\<not> serializeToString fld \<or> sanitizeValue fld v = JNull \<or>
     (\<forall>n. v \<noteq> JNum n) \<and> cacheValueMatchesState fld cache (sanitizeValue fld v)) \<longrightarrow>
    strict_eq (sanitizeValue fld (JStr t)) (sanitizeValue fld v)) \<and>
   (cache \<noteq> ''-'' \<and> displayValue fld cache (sanitizeValue fld v) = Inr t \<and>
    serializeToString fld \<and> (\<forall>n. v \<noteq> JNum n) \<and> sanitizeValue fld v \<noteq> JNull \<longrightarrow>
    sanitizeValue fld (JStr t) = JStr t \<and>
    num_eq (StringToNumber t) (Number_of (sanitizeValue fld v))) \<and>
   (w \<noteq> JStr ''NaN'' \<longrightarrow> displayValue fld ''-'' w = Inr ''-'') \<and>
   sanitizeValue fld (JStr ''-'') = JNull"
proof (intro conjI impI)
  assume h: "cache \<noteq> ''-'' \<and> displayValue fld cache (sanitizeValue fld v) = Inr t \<and>
    (\<not> serializeToString fld \<or> sanitizeValue fld v = JNull \<or>
     (\<forall>n. v \<noteq> JNum n) \<and> cacheValueMatchesState fld cache (sanitizeValue fld v))"
  show "strict_eq (sanitizeValue fld (JStr t)) (sanitizeValue fld v)"
  proof (cases "sanitizeValue fld v = JNull")
    case True
    with h displayValue_null [of cache fld t] show ?thesis
      by simp
  next
    case notnull: False
    show ?thesis
    proof (cases "serializeToString fld")
      case False
      with notnull sanitizeValue_number_mode [of fld v]
      obtain n where n: "sanitizeValue fld v = JNum n" "\<not> isNaN n"
        by auto
      with h False displayValue_number [of fld n cache t] show ?thesis
        by simp
    next
      case True
      with h notnull have nn: "\<forall>n. v \<noteq> JNum n"
        and m: "cacheValueMatchesState fld cache (sanitizeValue fld v)"
        by auto
      from nn notnull obtain s where s: "v = JStr s"
        by (cases v) (auto simp: sanitizeValue_def isNullEquivalentValue_def)
      from sanitizeValue_string_mode [OF True, of s] notnull s
      have sv: "sanitizeValue fld v = JStr s" "s \<noteq> ''NaN''"
        by auto
      from m sv s have c: "sanitizeValue fld (JStr cache) = JStr s"
        by (simp add: cacheValueMatchesState_def strict_eq_str)
      from h m sv have "t = cache"
        by (auto simp: displayValue_def)
      with c sv show ?thesis
        by simp
    qed
  qed
next
  assume h: "cache \<noteq> ''-'' \<and> displayValue fld cache (sanitizeValue fld v) = Inr t \<and>
    serializeToString fld \<and> (\<forall>n. v \<noteq> JNum n) \<and> sanitizeValue fld v \<noteq> JNull"
  then obtain s where s: "v = JStr s"
    by (cases v) (auto simp: sanitizeValue_def isNullEquivalentValue_def)
  with h sanitizeValue_string_mode [of fld s] have sv: "sanitizeValue fld v = JStr s"
    by simp
  from h s displayValue_string [of fld s cache t]
  have "sanitizeValue fld (JStr t) = JStr t \<and> num_eq (StringToNumber t) (StringToNumber s)"
    by simp
  with sv show "sanitizeValue fld (JStr t) = JStr t"
    and "num_eq (StringToNumber t) (Number_of (sanitizeValue fld v))"
    by (simp_all add: Number_of_def)
next
  show "displayValue fld ''-'' w = Inr ''-''" if "w \<noteq> JStr ''NaN''"
    using that by (simp add: displayValue_def)
  show "sanitizeValue fld (JStr ''-'') = JNull"
    by (rule sanitizeValue_minus)
qed

text \<open>The value \<^verbatim>\<open>"1.50"\<close> with an empty cache is displayed as \<^verbatim>\<open>1.5\<close>, which
  sanitizes to the same number.\<close>

theorem displayValue_roundtrip_witness:
  "displayValue \<lparr>decimalDigits = None, serializeToString = False, incrementValue = JUndefined\<rparr> []
     (sanitizeValue \<lparr>decimalDigits = None, serializeToString = False, incrementValue = JUndefined\<rparr>
        (JStr ''1.50'')) = Inr ''1.5'' \<and>
   strict_eq
     (sanitizeValue \<lparr>decimalDigits = None, serializeToString = False, incrementValue = JUndefined\<rparr>
        (JStr ''1.5''))
     (sanitizeValue \<lparr>decimalDigits = None, serializeToString = False, incrementValue = JUndefined\<rparr>
        (JStr ''1.50''))"
proof -
  let ?fld = "\<lparr>decimalDigits = None, serializeToString = False, incrementValue = JUndefined\<rparr>"
  have a: "displayValue ?fld [] (sanitizeValue ?fld (JStr ''1.50'')) = Inr ''1.5''"
    by code_simp
  from displayValue_roundtrip [of "[]" ?fld "JStr ''1.50''" "''1.5''"] a
  show ?thesis
    by simp
qed

text \<open>
  Claim C6 as stated fails for the cache \<^verbatim>\<open>-\<close>: with the value 5 the text displayed is
  \<^verbatim>\<open>-\<close>, which sanitizes to \<^verbatim>\<open>null\<close>, not to 5. It also fails with
  \<^verbatim>\<open>serializeToString\<close> for a text that is not in plain notation without trailing
  zeros: \<^verbatim>\<open>"1.50"\<close> with an empty cache is displayed as \<^verbatim>\<open>1.5\<close>, another text.
\<close>

theorem displayValue_roundtrip_counterexample:
  "displayValue \<lparr>decimalDigits = None, serializeToString = False, incrementValue = JUndefined\<rparr> ''-''
     (sanitizeValue \<lparr>decimalDigits = None, serializeToString = False, incrementValue = JUndefined\<rparr>
        (JNum (Fin (Dec 5 0)))) = Inr ''-'' \<and>
   \<not> strict_eq
     (sanitizeValue \<lparr>decimalDigits = None, serializeToString = False, incrementValue = JUndefined\<rparr>
        (JStr ''-''))
     (sanitizeValue \<lparr>decimalDigits = None, serializeToString = False, incrementValue = JUndefined\<rparr>
        (JNum (Fin (Dec 5 0)))) \<and>
   displayValue \<lparr>decimalDigits = None, serializeToString = True, incrementValue = JUndefined\<rparr> []
     (sanitizeValue \<lparr>decimalDigits = None, serializeToString = True, incrementValue = JUndefined\<rparr>
        (JStr ''1.50'')) = Inr ''1.5'' \<and>
   \<not> strict_eq
     (sanitizeValue \<lparr>decimalDigits = None, serializeToString = True, incrementValue = JUndefined\<rparr>
        (JStr ''1.5''))
     (sanitizeValue \<lparr>decimalDigits = None, serializeToString = True, incrementValue = JUndefined\<rparr>
        (JStr ''1.50''))"
  by code_simp

end
